theory Spec2Isabelle
  imports Main "HOL-Library.Sublist"
begin

section \<open>Python values shared by the modules\<close>

text \<open>
  The outcome of a Python call: it returns a value, it raises an \<open>Exception\<close> (the
  payload is \<open>str(e)\<close>), or the Streamlit session is halted by \<open>st.stop()\<close>.
  \<open>st.stop()\<close> raises Streamlit's \<open>StopException\<close>, a \<open>BaseException\<close> that is no
  \<open>Exception\<close>: an \<open>except Exception\<close> clause does not catch it.
\<close>

datatype 'a outcome = Return 'a | Raised string | SessionStopped

text \<open>\<open>str(n)\<close> of a Python integer, as used by the f-strings.\<close>

fun str_nat :: "nat \<Rightarrow> string" where
  "str_nat n =
     (if n < 10 then [''0123456789'' ! n]
      else str_nat (n div 10) @ [''0123456789'' ! (n mod 10)])"

declare str_nat.simps [simp del]

definition str_int :: "int \<Rightarrow> string" where
  "str_int i = (if i < 0 then CHR ''-'' # str_nat (nat (- i)) else str_nat (nat i))"

text \<open>\<open>range(n)\<close>: the indices \<open>0 .. n - 1\<close>, none when \<open>n \<le> 0\<close>.\<close>

definition py_range :: "int \<Rightarrow> nat list" where
  "py_range n = [0 ..< nat n]"

section \<open>ai\_service.py\<close>

subsection \<open>call\_gemini\<close>

text \<open>
  What one pass through the \<open>try\<close> body (lines 22 to 30) meets. The request (the
  content parts followed by the prompt, the model name, the temperature) is the same on
  every attempt and only travels to the remote service, so the service is represented by
  its reply to each attempt index.
  \<^item> \<open>Response None\<close>: \<open>generate_content\<close> returned a falsy response;
    \<open>Response (Some t)\<close>: it returned a response whose \<open>text\<close> is \<open>t\<close>;
  \<^item> \<open>ClientResponseError status body shown\<close>: the client error with
    \<open>e.response.status_code\<close>, \<open>e.response.text\<close> and \<open>str(e)\<close>;
  \<^item> \<open>OtherException shown\<close>: any other \<open>Exception\<close>, with \<open>str(e)\<close>.
  The calls \<open>st.warning\<close> and \<open>st.error\<close> only display a message and are left out;
  \<open>st.stop()\<close> is the outcome \<open>SessionStopped\<close>.
\<close>

datatype reply =
    Response "string option"
  | ClientResponseError int string string
  | OtherException string

text \<open>
  The observable effects of a call, in order: \<open>Generate i\<close> is the attempt with index
  \<open>i\<close> running the \<open>try\<close> body, which issues the request; \<open>Sleep d\<close> is
  \<open>time.sleep(d)\<close>.
\<close>

datatype event = Generate nat | Sleep nat

definition failed_message :: "int \<Rightarrow> string \<Rightarrow> string" where
  "failed_message max_retries shown =
     ''Failed to get response from Gemini after '' @ str_int max_retries @ '' attempts: '' @ shown"

definition empty_response_message :: string where
  "empty_response_message = ''Empty or invalid response received from Gemini''"

definition exhausted_message :: string where
  "exhausted_message = ''Error: Unable to process request after multiple attempts.''"

text \<open>\<open>"API key expired" in str(e)\<close>\<close>

definition mentions_expired_key :: "string \<Rightarrow> bool" where
  "mentions_expired_key shown = sublist ''API key expired'' shown"

text \<open>
  The body of the \<open>for attempt in range(max_retries)\<close> loop, over the indices that are
  left. \<open>retry\<close> is the rest of the loop, entered after a handler finishes without
  raising. The last equation's first line is the \<open>return\<close> after the loop (line 56).
\<close>

fun attempts :: "(nat \<Rightarrow> reply) \<Rightarrow> int \<Rightarrow> nat list \<Rightarrow> string outcome \<times> event list" where
  "attempts generate max_retries [] = (Return exhausted_message, [])"
| "attempts generate max_retries (attempt # rest) =
     (let retry = attempts generate max_retries rest;
          general_error = (\<lambda>shown.
            if int attempt = max_retries - 1
            then (Raised (failed_message max_retries shown), [Generate attempt])
            else (fst retry, Generate attempt # Sleep (2 ^ attempt) # snd retry))
      in case generate attempt of
           Response r \<Rightarrow>
             (case r of
                Some text \<Rightarrow>
                  if text \<noteq> [] then (Return text, [Generate attempt])
                  else general_error empty_response_message
              | None \<Rightarrow> general_error empty_response_message)
         | ClientResponseError status body shown \<Rightarrow>
             if status = 429
             then (fst retry, Generate attempt # Sleep (2 ^ attempt) # snd retry)
             else if status = 400 \<and> mentions_expired_key shown
             then (SessionStopped, [Generate attempt])
             else if int attempt = max_retries - 1
             then (Raised (failed_message max_retries shown), [Generate attempt])
             else (fst retry, Generate attempt # Sleep (2 ^ attempt) # snd retry)
         | OtherException shown \<Rightarrow> general_error shown)"

definition call_gemini :: "(nat \<Rightarrow> reply) \<Rightarrow> int \<Rightarrow> string outcome \<times> event list" where
  "call_gemini generate max_retries = attempts generate max_retries (py_range max_retries)"

text \<open>What a run did: the requests it issued and the delays it slept, in order.\<close>

definition requests :: "event list \<Rightarrow> nat list" where
  "requests tr = concat (map (\<lambda>e. case e of Generate i \<Rightarrow> [i] | Sleep d \<Rightarrow> []) tr)"

definition sleeps :: "event list \<Rightarrow> nat list" where
  "sleeps tr = concat (map (\<lambda>e. case e of Generate i \<Rightarrow> [] | Sleep d \<Rightarrow> [d]) tr)"

text \<open>A reply that carries no usable text: \<open>response and response.text\<close> is falsy.\<close>

definition empty_or_invalid :: "reply \<Rightarrow> bool" where
  "empty_or_invalid r = (r = Response None \<or> r = Response (Some []))"

text \<open>
  The classification of a reply that the handlers make: the text that is returned, the
  rate-limit error (status 429), the expired-credential error (status 400 whose
  \<open>str(e)\<close> holds "API key expired"), and \<open>str(e)\<close> of the exception that reaches a
  handler (the empty-response exception is raised by the \<open>try\<close> body itself).
\<close>

definition usable_text :: "reply \<Rightarrow> string option" where
  "usable_text r =
     (case r of Response (Some t) \<Rightarrow> if t \<noteq> [] then Some t else None | _ \<Rightarrow> None)"

definition rate_limited :: "reply \<Rightarrow> bool" where
  "rate_limited r =
     (case r of ClientResponseError status body shown \<Rightarrow> status = 429 | _ \<Rightarrow> False)"

definition expired_credential :: "reply \<Rightarrow> bool" where
  "expired_credential r =
     (case r of
        ClientResponseError status body shown \<Rightarrow> status = 400 \<and> mentions_expired_key shown
      | _ \<Rightarrow> False)"

definition error_shown :: "reply \<Rightarrow> string" where
  "error_shown r =
     (case r of
        Response t \<Rightarrow> empty_response_message
      | ClientResponseError status body shown \<Rightarrow> shown
      | OtherException shown \<Rightarrow> shown)"

text \<open>The trace of attempts that each failed and were followed by their backoff sleep.\<close>

definition retried :: "nat list \<Rightarrow> event list" where
  "retried indices = concat (map (\<lambda>i. [Generate i, Sleep (2 ^ i)]) indices)"

text \<open>Services used as concrete inputs.\<close>

definition silent_service :: "nat \<Rightarrow> reply" where
  "silent_service i = Response None"

definition throttling_service :: "nat \<Rightarrow> reply" where
  "throttling_service i = ClientResponseError 429 ''Too Many Requests'' ''429 Too Many Requests''"

definition expired_key_service :: "nat \<Rightarrow> reply" where
  "expired_key_service i =
     ClientResponseError 400 ''API key expired. Please renew the API key.''
       ''400 API key expired. Please renew the API key.''"

definition expires_on_third :: "nat \<Rightarrow> reply" where
  "expires_on_third i = (if i = 2 then expired_key_service i else silent_service i)"

subsection \<open>The analysis functions\<close>

text \<open>
  Each analysis function builds its prompt (an f-string over its arguments, which cannot
  fail for strings) and ends in
  \<^verbatim>\<open>try: return call_gemini(prompt, parts, model_name)\<close>
  \<^verbatim>\<open>except Exception as e: return f"Error <doing X>: {str(e)}"\<close>
  with \<open>max_retries\<close> left at its default 5. The handler catches an \<open>Exception\<close>; the
  halt of \<open>st.stop()\<close> passes through it.
\<close>

definition try_except_Exception ::
  "string outcome \<times> event list \<Rightarrow> (string \<Rightarrow> string) \<Rightarrow> string outcome \<times> event list" where
  "try_except_Exception run handler =
     (case fst run of
        Return t \<Rightarrow> run
      | Raised shown \<Rightarrow> (Return (handler shown), snd run)
      | SessionStopped \<Rightarrow> run)"

definition analyze_resume :: "(nat \<Rightarrow> reply) \<Rightarrow> string outcome \<times> event list" where
  "analyze_resume generate =
     try_except_Exception (call_gemini generate 5) (\<lambda>e. ''Error analyzing resume: '' @ e)"

definition get_match_score :: "(nat \<Rightarrow> reply) \<Rightarrow> string outcome \<times> event list" where
  "get_match_score generate =
     try_except_Exception (call_gemini generate 5) (\<lambda>e. ''Error calculating match score: '' @ e)"

definition optimize_resume :: "(nat \<Rightarrow> reply) \<Rightarrow> string outcome \<times> event list" where
  "optimize_resume generate =
     try_except_Exception (call_gemini generate 5) (\<lambda>e. ''Error optimizing resume: '' @ e)"

definition check_grammar :: "(nat \<Rightarrow> reply) \<Rightarrow> string outcome \<times> event list" where
  "check_grammar generate =
     try_except_Exception (call_gemini generate 5) (\<lambda>e. ''Error checking grammar: '' @ e)"

definition keyword_density :: "(nat \<Rightarrow> reply) \<Rightarrow> string outcome \<times> event list" where
  "keyword_density generate =
     try_except_Exception (call_gemini generate 5) (\<lambda>e. ''Error analyzing keyword density: '' @ e)"

definition suggest_roles :: "(nat \<Rightarrow> reply) \<Rightarrow> string outcome \<times> event list" where
  "suggest_roles generate =
     try_except_Exception (call_gemini generate 5) (\<lambda>e. ''Error suggesting roles: '' @ e)"

definition section_check :: "(nat \<Rightarrow> reply) \<Rightarrow> string outcome \<times> event list" where
  "section_check generate =
     try_except_Exception (call_gemini generate 5) (\<lambda>e. ''Error checking sections: '' @ e)"

definition generate_cover_letter :: "(nat \<Rightarrow> reply) \<Rightarrow> string outcome \<times> event list" where
  "generate_cover_letter generate =
     try_except_Exception (call_gemini generate 5) (\<lambda>e. ''Error generating cover letter: '' @ e)"

definition salary_insights :: "(nat \<Rightarrow> reply) \<Rightarrow> string outcome \<times> event list" where
  "salary_insights generate =
     try_except_Exception (call_gemini generate 5) (\<lambda>e. ''Error generating salary insights: '' @ e)"

definition skill_gap_analysis :: "(nat \<Rightarrow> reply) \<Rightarrow> string outcome \<times> event list" where
  "skill_gap_analysis generate =
     try_except_Exception (call_gemini generate 5)
       (\<lambda>e. ''Error performing skill gap analysis: '' @ e)"

definition generate_interview_questions :: "(nat \<Rightarrow> reply) \<Rightarrow> string outcome \<times> event list" where
  "generate_interview_questions generate =
     try_except_Exception (call_gemini generate 5)
       (\<lambda>e. ''Error generating interview questions: '' @ e)"

definition generate_branding_statement :: "(nat \<Rightarrow> reply) \<Rightarrow> string outcome \<times> event list" where
  "generate_branding_statement generate =
     try_except_Exception (call_gemini generate 5)
       (\<lambda>e. ''Error generating branding statement: '' @ e)"

text \<open>The twelve functions, each with the words its error string puts after "Error".\<close>

definition analysis_functions ::
  "(string \<times> ((nat \<Rightarrow> reply) \<Rightarrow> string outcome \<times> event list)) list" where
  "analysis_functions =
     [(''analyzing resume'', analyze_resume),
      (''calculating match score'', get_match_score),
      (''optimizing resume'', optimize_resume),
      (''checking grammar'', check_grammar),
      (''analyzing keyword density'', keyword_density),
      (''suggesting roles'', suggest_roles),
      (''checking sections'', section_check),
      (''generating cover letter'', generate_cover_letter),
      (''generating salary insights'', salary_insights),
      (''performing skill gap analysis'', skill_gap_analysis),
      (''generating interview questions'', generate_interview_questions),
      (''generating branding statement'', generate_branding_statement)]"

section \<open>db\_operations.py\<close>

subsection \<open>JSON values and the Python operations on them\<close>

text \<open>
  What \<open>json.load\<close> yields, and so what the entries of the store can be: \<open>None\<close>,
  booleans, numbers (their value plays no part in the code), strings, lists and
  dictionaries. A dictionary keeps its items in insertion order.
\<close>

datatype json =
    JNull
  | JBool bool
  | JNum int
  | JStr string
  | JArr "json list"
  | JObj "(string \<times> json) list"

text \<open>
  The exception classes that this module meets. \<open>IOError\<close> is \<open>OSError\<close>.
  \<open>json.JSONDecodeError\<close> and \<open>UnicodeDecodeError\<close> are subclasses of
  \<open>ValueError\<close>; a handler for one of the two does not catch the other, nor a plain
  \<open>ValueError\<close>.
\<close>

datatype py_error =
    TypeError
  | ValueError
  | KeyError
  | AttributeError
  | IOError
  | JSONDecodeError
  | UnicodeDecodeError
  | RecursionError

text \<open>
  \<open>key in x\<close> for a string \<open>key\<close>: key membership for a dictionary, substring test for
  a string, element test for a list; \<open>None\<close>, a boolean or a number is not iterable.
\<close>

fun py_in :: "string \<Rightarrow> json \<Rightarrow> py_error + bool" where
  "py_in key (JObj items) = Inr (key \<in> set (map fst items))"
| "py_in key (JStr s) = Inr (sublist key s)"
| "py_in key (JArr xs) = Inr (JStr key \<in> set xs)"
| "py_in key x = Inl TypeError"

text \<open>
  \<open>x[key]\<close> for a string \<open>key\<close>: the item of a dictionary (\<open>KeyError\<close> when absent);
  a string or a list takes integer indices only, the other values are not subscriptable.
\<close>

fun py_getitem :: "json \<Rightarrow> string \<Rightarrow> py_error + json" where
  "py_getitem (JObj items) key =
     (case map_of items key of None \<Rightarrow> Inl KeyError | Some v \<Rightarrow> Inr v)"
| "py_getitem x key = Inl TypeError"

text \<open>\<open>x.get(key)\<close>: only a dictionary has the method.\<close>

fun py_get :: "json \<Rightarrow> string \<Rightarrow> py_error + json" where
  "py_get (JObj items) key = Inr (case map_of items key of None \<Rightarrow> JNull | Some v \<Rightarrow> v)"
| "py_get x key = Inl AttributeError"

text \<open>
  \<open>for e in x\<close>: the elements of a list, the characters of a string, the keys of a
  dictionary.
\<close>

fun py_iter :: "json \<Rightarrow> py_error + json list" where
  "py_iter (JArr xs) = Inr xs"
| "py_iter (JStr s) = Inr (map (\<lambda>c. JStr [c]) s)"
| "py_iter (JObj items) = Inr (map (\<lambda>item. JStr (fst item)) items)"
| "py_iter x = Inl TypeError"

text \<open>\<open>x.append(v)\<close>: only a list has the method.\<close>

fun py_append :: "json \<Rightarrow> json \<Rightarrow> py_error + json" where
  "py_append (JArr xs) v = Inr (JArr (xs @ [v]))"
| "py_append x v = Inl AttributeError"

text \<open>\<open>x[key] = v\<close> for a string \<open>key\<close>: a dictionary keeps the place of a key it has.\<close>

primrec set_item :: "string \<Rightarrow> json \<Rightarrow> (string \<times> json) list \<Rightarrow> (string \<times> json) list" where
  "set_item key v [] = [(key, v)]"
| "set_item key v (item # items) =
     (if fst item = key then (key, v) # items else item # set_item key v items)"

fun py_setitem :: "json \<Rightarrow> string \<Rightarrow> json \<Rightarrow> py_error + json" where
  "py_setitem (JObj items) key v = Inr (JObj (set_item key v items))"
| "py_setitem x key v = Inl TypeError"

subsection \<open>The store file\<close>

text \<open>
  The states of the file \<open>DB_FILE\<close>, told apart by what \<open>open\<close> and \<open>json.load\<close>
  do on it:
  \<^item> \<open>Missing\<close>: the file is absent;
  \<^item> \<open>Unreadable\<close>: opening or reading it raises \<open>IOError\<close>;
  \<^item> \<open>Undecodable\<close>: its bytes are no text in the encoding of \<open>open\<close> (a byte
    \<open>0xff\<close> under UTF-8), so that reading raises \<open>UnicodeDecodeError\<close>;
  \<^item> \<open>Malformed\<close>: its text is no JSON document, as the text \<open>not json{\<close> or the
    empty text, so that \<open>json.load\<close> raises \<open>JSONDecodeError\<close>;
  \<^item> \<open>Overnested\<close>: its text nests lists or objects deeper than the interpreter's
    recursion limit, so that \<open>json.load\<close> raises \<open>RecursionError\<close>;
  \<^item> \<open>Overlong\<close>: its text holds an integer literal with more digits than the
    interpreter converts (4300 by default since Python 3.11), so that \<open>json.load\<close>
    raises a plain \<open>ValueError\<close>;
  \<^item> \<open>Stored\<close>: \<open>json.load\<close> yields the value; the text \<open>{"foo": 1}\<close> is
    \<open>Stored (JObj [(''foo'', JNum 1)])\<close>.
  Writing the file may fail with \<open>IOError\<close>. The calls of \<open>st.error\<close>,
  \<open>st.sidebar.info\<close> and \<open>st.sidebar.warning\<close> only display a message and are left
  out.
\<close>

datatype store_file =
    Missing
  | Unreadable
  | Undecodable
  | Malformed
  | Overnested
  | Overlong
  | Stored json

record disk =
  db_file :: store_file
  write_fails :: bool

definition empty_db :: json where
  "empty_db = JObj [(''users'', JArr []), (''history'', JArr [])]"

text \<open>\<open>with open(DB_FILE, "r") as f: data = json.load(f)\<close>\<close>

fun read_json :: "store_file \<Rightarrow> py_error + json" where
  "read_json Missing = Inl IOError"
| "read_json Unreadable = Inl IOError"
| "read_json Undecodable = Inl UnicodeDecodeError"
| "read_json Malformed = Inl JSONDecodeError"
| "read_json Overnested = Inl RecursionError"
| "read_json Overlong = Inl ValueError"
| "read_json (Stored data) = Inr data"

text \<open>
  Lines 14 to 31: the handlers catch \<open>json.JSONDecodeError\<close> and \<open>IOError\<close>; any
  other exception leaves the function.
\<close>

definition load_db_data :: "store_file \<Rightarrow> py_error + json" where
  "load_db_data file =
     (if file \<noteq> Missing then
        (case read_json file of
           Inr data \<Rightarrow>
             (case data of
                JObj items \<Rightarrow>
                  if ''users'' \<in> set (map fst items) \<and> ''history'' \<in> set (map fst items)
                  then Inr data
                  else Inr (JObj [(''users'', JArr []), (''history'', JArr [])])
              | _ \<Rightarrow> Inr (JObj [(''users'', JArr []), (''history'', JArr [])]))
         | Inl JSONDecodeError \<Rightarrow> Inr (JObj [(''users'', JArr []), (''history'', JArr [])])
         | Inl IOError \<Rightarrow> Inr (JObj [(''users'', JArr []), (''history'', JArr [])])
         | Inl e \<Rightarrow> Inl e)
      else Inr (JObj [(''users'', JArr []), (''history'', JArr [])]))"

text \<open>
  \<open>save_db_data\<close>: the whole file is rewritten with the value; an \<open>IOError\<close> is caught
  and displayed.
\<close>

definition save_db_data :: "json \<Rightarrow> disk \<Rightarrow> disk" where
  "save_db_data data d = (if write_fails d then d else d\<lparr>db_file := Stored data\<rparr>)"

subsection \<open>record\_interaction\<close>

text \<open>The loop of lines 53 to 56: it stops at the first user whose email is the given one.\<close>

fun find_user :: "string \<Rightarrow> json list \<Rightarrow> py_error + bool" where
  "find_user user_email [] = Inr False"
| "find_user user_email (user # rest) =
     (case py_get user ''email'' of
        Inl e \<Rightarrow> Inl e
      | Inr v \<Rightarrow> if v = JStr user_email then Inr True else find_user user_email rest)"

text \<open>\<open>db_data[key].append(v)\<close>: the list under the key grows in place.\<close>

definition append_under :: "string \<Rightarrow> json \<Rightarrow> json \<Rightarrow> py_error + json" where
  "append_under key v db_data =
     (case py_getitem db_data key of
        Inl e \<Rightarrow> Inl e
      | Inr xs \<Rightarrow>
          (case py_append xs v of
             Inl e \<Rightarrow> Inl e
           | Inr xs' \<Rightarrow> py_setitem db_data key xs'))"

text \<open>
  \<open>s[:limit] + "..." if s and len(s) > limit else s\<close>, with the limit 200 for the job
  description and 500 for the response.
\<close>

definition excerpt :: "nat \<Rightarrow> string \<Rightarrow> string" where
  "excerpt limit s = (if s \<noteq> [] \<and> length s > limit then take limit s @ ''...'' else s)"

text \<open>The entry of lines 61 to 68; \<open>now\<close> is \<open>datetime.datetime.now().isoformat()\<close>.\<close>

definition history_entry ::
  "string \<Rightarrow> string \<Rightarrow> string \<Rightarrow> string \<Rightarrow> string \<Rightarrow> string \<Rightarrow> json" where
  "history_entry now user_name user_email analysis_type job_description ai_response =
     JObj [(''timestamp'', JStr now),
           (''name'', JStr user_name),
           (''email'', JStr user_email),
           (''analysis_type'', JStr analysis_type),
           (''job_description_excerpt'', JStr (excerpt 200 job_description)),
           (''ai_response_excerpt'', JStr (excerpt 500 ai_response))]"

text \<open>Lines 52 to 69, on the loaded \<open>db_data\<close>; the result is \<open>db_data\<close> as it is saved.\<close>

definition record_update ::
  "string \<Rightarrow> string \<Rightarrow> string \<Rightarrow> string \<Rightarrow> string \<Rightarrow> string \<Rightarrow> json \<Rightarrow> py_error + json" where
  "record_update now user_name user_email analysis_type job_description ai_response db_data =
     (case py_getitem db_data ''users'' of
        Inl e \<Rightarrow> Inl e
      | Inr users \<Rightarrow>
     (case py_iter users of
        Inl e \<Rightarrow> Inl e
      | Inr us \<Rightarrow>
     (case find_user user_email us of
        Inl e \<Rightarrow> Inl e
      | Inr user_exists \<Rightarrow>
     (case (if user_email \<noteq> [] \<and> \<not> user_exists
            then append_under ''users''
                   (JObj [(''name'', JStr user_name), (''email'', JStr user_email)]) db_data
            else Inr db_data) of
        Inl e \<Rightarrow> Inl e
      | Inr db_data' \<Rightarrow>
          append_under ''history''
            (history_entry now user_name user_email analysis_type job_description ai_response)
            db_data'))))"

definition record_interaction ::
  "string \<Rightarrow> string \<Rightarrow> string \<Rightarrow> string \<Rightarrow> string \<Rightarrow> string \<Rightarrow> disk \<Rightarrow> (py_error + unit) \<times> disk" where
  "record_interaction now user_name user_email analysis_type job_description ai_response d =
     (case load_db_data (db_file d) of
        Inl e \<Rightarrow> (Inl e, d)
      | Inr db_data \<Rightarrow>
          (case record_update now user_name user_email analysis_type job_description
                  ai_response db_data of
             Inl e \<Rightarrow> (Inl e, d)
           | Inr db_data' \<Rightarrow> (Inr (), save_db_data db_data' d)))"

text \<open>
  What the claims about the store speak of: the users and the history of a store, the
  email of a user record, and a store whose users are a list of records and whose history
  is a list.
\<close>

definition users_of :: "json \<Rightarrow> json list" where
  "users_of db_data = (case py_getitem db_data ''users'' of Inr (JArr us) \<Rightarrow> us | _ \<Rightarrow> [])"

definition history_of :: "json \<Rightarrow> json list" where
  "history_of db_data = (case py_getitem db_data ''history'' of Inr (JArr hs) \<Rightarrow> hs | _ \<Rightarrow> [])"

definition email_of :: "json \<Rightarrow> json" where
  "email_of user = (case py_get user ''email'' of Inr v \<Rightarrow> v | Inl e \<Rightarrow> JNull)"

fun is_record :: "json \<Rightarrow> bool" where
  "is_record (JObj items) = True"
| "is_record x = False"

definition well_formed_store :: "json \<Rightarrow> bool" where
  "well_formed_store db_data =
     (case (py_getitem db_data ''users'', py_getitem db_data ''history'') of
        (Inr (JArr us), Inr (JArr hs)) \<Rightarrow> list_all is_record us
      | _ \<Rightarrow> False)"

text \<open>\<open>isinstance(data, dict) and "users" in data and "history" in data\<close>\<close>

definition has_expected_keys :: "json \<Rightarrow> bool" where
  "has_expected_keys data =
     (case data of
        JObj items \<Rightarrow> ''users'' \<in> set (map fst items) \<and> ''history'' \<in> set (map fst items)
      | _ \<Rightarrow> False)"

text \<open>The shape \<open>{"users": [...], "history": [...]}\<close>: a dictionary with a list under each key.\<close>

definition has_list_shape :: "json \<Rightarrow> bool" where
  "has_list_shape data =
     (case (py_getitem data ''users'', py_getitem data ''history'') of
        (Inr (JArr us), Inr (JArr hs)) \<Rightarrow> True
      | _ \<Rightarrow> False)"

subsection \<open>clean\_old\_history\<close>

text \<open>
  A \<open>datetime\<close> is a point in time, counted in microseconds, that is naive or carries
  a time zone offset. \<open>datetime.now()\<close> is naive. \<open>fromisoformat\<close> is the parser of the
  standard library: it yields no value where it raises \<open>ValueError\<close>. Subtracting an
  aware value from a naive one raises \<open>TypeError\<close>; the \<open>days\<close> of a difference are
  its whole days, rounded down.
\<close>

datatype datetime = Naive int | Aware int

definition microseconds_per_day :: int where
  "microseconds_per_day = 86400000000"

text \<open>
  The \<open>try\<close> body of lines 85 to 94 for one entry: \<open>Inr True\<close> when the entry is
  appended to \<open>cleaned_history\<close>, \<open>Inr False\<close> when it is found old.
\<close>

definition entry_try ::
  "(string \<Rightarrow> datetime option) \<Rightarrow> int \<Rightarrow> int \<Rightarrow> json \<Rightarrow> py_error + bool" where
  "entry_try fromisoformat current_time days_threshold entry =
     (case py_in ''timestamp'' entry of
        Inl e \<Rightarrow> Inl e
      | Inr present \<Rightarrow>
          if present then
            (case py_getitem entry ''timestamp'' of
               Inl e \<Rightarrow> Inl e
             | Inr ts \<Rightarrow>
                 (case ts of
                    JStr s \<Rightarrow>
                      (case fromisoformat s of
                         None \<Rightarrow> Inl ValueError
                       | Some (Naive t) \<Rightarrow>
                           Inr ((current_time - t) div microseconds_per_day \<le> days_threshold)
                       | Some (Aware t) \<Rightarrow> Inl TypeError)
                  | _ \<Rightarrow> Inl TypeError))
          else Inr True)"

text \<open>
  The loop of lines 82 to 102 with its two variables \<open>cleaned_history\<close> and
  \<open>cleanup_occurred\<close>: \<open>ValueError\<close> keeps the entry, \<open>TypeError\<close> skips it.
\<close>

fun clean_entries ::
  "(string \<Rightarrow> datetime option) \<Rightarrow> int \<Rightarrow> int \<Rightarrow> json list \<Rightarrow> json list \<times> bool \<Rightarrow>
     py_error + json list \<times> bool" where
  "clean_entries fromisoformat current_time days_threshold [] state = Inr state"
| "clean_entries fromisoformat current_time days_threshold (entry # rest) state =
     (case entry_try fromisoformat current_time days_threshold entry of
        Inr keep \<Rightarrow>
          clean_entries fromisoformat current_time days_threshold rest
            (if keep then (fst state @ [entry], snd state) else (fst state, True))
      | Inl ValueError \<Rightarrow>
          clean_entries fromisoformat current_time days_threshold rest
            (fst state @ [entry], snd state)
      | Inl TypeError \<Rightarrow>
          clean_entries fromisoformat current_time days_threshold rest state
      | Inl e \<Rightarrow> Inl e)"

text \<open>
  The function yields its result, the dictionary it was given (changed in place when
  cleanup occurred) and the disk.
\<close>

definition clean_old_history ::
  "(string \<Rightarrow> datetime option) \<Rightarrow> int \<Rightarrow> json \<Rightarrow> int \<Rightarrow> disk \<Rightarrow> (py_error + bool) \<times> json \<times> disk" where
  "clean_old_history fromisoformat current_time db_data_to_clean days_threshold d =
     (case py_getitem db_data_to_clean ''history'' of
        Inl e \<Rightarrow> (Inl e, db_data_to_clean, d)
      | Inr history \<Rightarrow>
     (case py_iter history of
        Inl e \<Rightarrow> (Inl e, db_data_to_clean, d)
      | Inr entries \<Rightarrow>
     (case clean_entries fromisoformat current_time days_threshold entries ([], False) of
        Inl e \<Rightarrow> (Inl e, db_data_to_clean, d)
      | Inr (cleaned_history, cleanup_occurred) \<Rightarrow>
          if cleanup_occurred then
            (case py_setitem db_data_to_clean ''history'' (JArr cleaned_history) of
               Inl e \<Rightarrow> (Inl e, db_data_to_clean, d)
             | Inr db_data' \<Rightarrow> (Inr True, db_data', save_db_data db_data' d))
          else (Inr False, db_data_to_clean, d))))"

subsection \<open>Concrete stores\<close>

text \<open>
  A disk without a store file; a store that knows one user and one earlier interaction; a
  store with both keys but no list under them; a clock and a parser for the pruning
  examples: the current time is 101 days after the origin, \<open>2026-07-26T12:00:00\<close> is
  the origin and \<open>2026-11-03T12:00:00\<close> is 100 days after it.
\<close>

definition fresh_disk :: disk where
  "fresh_disk = \<lparr>db_file = Missing, write_fails = False\<rparr>"

definition ada_user :: json where
  "ada_user = JObj [(''name'', JStr ''Ada''), (''email'', JStr ''ada@example.org'')]"

definition earlier_entry :: json where
  "earlier_entry =
     JObj [(''timestamp'', JStr ''2026-11-03T12:00:00''),
           (''name'', JStr ''Ada''),
           (''email'', JStr ''ada@example.org''),
           (''analysis_type'', JStr ''Grammar check''),
           (''job_description_excerpt'', JStr []),
           (''ai_response_excerpt'', JStr ''No errors found.'')]"

definition ada_store :: json where
  "ada_store = JObj [(''users'', JArr [ada_user]), (''history'', JArr [earlier_entry])]"

definition ada_disk :: disk where
  "ada_disk = \<lparr>db_file = Stored ada_store, write_fails = False\<rparr>"

definition odd_store :: json where
  "odd_store = JObj [(''users'', JNum 1), (''history'', JStr ''x'')]"

definition example_now :: int where
  "example_now = 101 * microseconds_per_day"

definition example_fromisoformat :: "string \<Rightarrow> datetime option" where
  "example_fromisoformat s =
     (if s = ''2026-07-26T12:00:00'' then Some (Naive 0)
      else if s = ''2026-11-03T12:00:00'' then Some (Naive (100 * microseconds_per_day))
      else None)"

definition old_entry :: json where
  "old_entry = JObj [(''timestamp'', JStr ''2026-07-26T12:00:00''), (''name'', JStr ''Ada'')]"

definition recent_entry :: json where
  "recent_entry = JObj [(''timestamp'', JStr ''2026-11-03T12:00:00''), (''name'', JStr ''Ada'')]"

definition store_with :: "json list \<Rightarrow> json" where
  "store_with history = JObj [(''users'', JArr []), (''history'', JArr history)]"

section \<open>utils.py\<close>

subsection \<open>generate\_pdf\_from\_markdown\<close>

text \<open>
  The HTML page (the converted markdown inside the fixed template) only travels to
  \<open>pdfkit\<close>, so the external tools are represented by what they do in this call:
  \<^item> \<open>configuration\<close>: \<open>pdfkit.configuration(wkhtmltopdf=WKHTMLTOPDF_PATH)\<close> raises
    (\<open>Inl\<close>, with \<open>str(e)\<close>) or yields a configuration;
  \<^item> \<open>conversion\<close>: \<open>pdfkit.from_string(full_html, tmp_pdf.name, ...)\<close> raises
    (\<open>Inl\<close>) or writes the PDF bytes to the given path (\<open>Inr\<close>);
  \<^item> \<open>tmp_name\<close>: the path that \<open>NamedTemporaryFile(delete=False, suffix=".pdf")\<close>
    creates.
  The files are a map from paths to contents. The result is \<open>pdf_data\<close> or \<open>None\<close>.
\<close>

record pdf_tools =
  configuration :: "string + unit"
  conversion :: "string + string"
  tmp_name :: string

text \<open>\<open>WKHTMLTOPDF_PATH = None\<close> in config.py.\<close>

definition WKHTMLTOPDF_PATH :: "string option" where
  "WKHTMLTOPDF_PATH = None"

definition generate_pdf_from_markdown ::
  "pdf_tools \<Rightarrow> (string \<rightharpoonup> string) \<Rightarrow> string option \<times> (string \<rightharpoonup> string)" where
  "generate_pdf_from_markdown tools files =
     (case (if WKHTMLTOPDF_PATH \<noteq> None \<and> WKHTMLTOPDF_PATH \<noteq> Some []
            then configuration tools else Inr ()) of
        Inl e \<Rightarrow> (None, files)
      | Inr config \<Rightarrow>
          (let created = files(tmp_name tools \<mapsto> [])
           in case conversion tools of
                Inl e \<Rightarrow> (None, created)
              | Inr pdf \<Rightarrow>
                  (let written = created(tmp_name tools \<mapsto> pdf);
                       pdf_data = written (tmp_name tools);
                       unlinked = written(tmp_name tools := None)
                   in (pdf_data, unlinked))))"

text \<open>Inputs used as concrete cases.\<close>

definition tools_without_wkhtmltopdf :: pdf_tools where
  "tools_without_wkhtmltopdf =
     \<lparr>configuration = Inr (),
      conversion = Inl ''No wkhtmltopdf executable found'',
      tmp_name = ''/tmp/tmpab12cd34.pdf''\<rparr>"

section \<open>Properties of call\_gemini\<close>

lemma attempts_Cons:
  "attempts generate N (a # rest) =
     (case usable_text (generate a) of
        Some t \<Rightarrow> (Return t, [Generate a])
      | None \<Rightarrow>
          if rate_limited (generate a)
          then (fst (attempts generate N rest),
                Generate a # Sleep (2 ^ a) # snd (attempts generate N rest))
          else if expired_credential (generate a) then (SessionStopped, [Generate a])
          else if int a = N - 1
          then (Raised (failed_message N (error_shown (generate a))), [Generate a])
          else (fst (attempts generate N rest),
                Generate a # Sleep (2 ^ a) # snd (attempts generate N rest)))"
  by (simp add: usable_text_def rate_limited_def expired_credential_def error_shown_def Let_def
      split: reply.split option.split)

lemma requests_simps [simp]:
  "requests [] = []"
  "requests (Generate i # tr) = i # requests tr"
  "requests (Sleep d # tr) = requests tr"
  "requests (tr @ tr') = requests tr @ requests tr'"
  by (simp_all add: requests_def)

lemma sleeps_simps [simp]:
  "sleeps [] = []"
  "sleeps (Generate i # tr) = sleeps tr"
  "sleeps (Sleep d # tr) = d # sleeps tr"
  "sleeps (tr @ tr') = sleeps tr @ sleeps tr'"
  by (simp_all add: sleeps_def)

lemma retried_simps [simp]:
  "retried [] = []"
  "retried (i # indices) = Generate i # Sleep (2 ^ i) # retried indices"
  by (simp_all add: retried_def)

lemma requests_retried [simp]: "requests (retried indices) = indices"
  by (induction indices) simp_all

lemma sleeps_retried [simp]: "sleeps (retried indices) = map (\<lambda>i. 2 ^ i) indices"
  by (induction indices) simp_all

lemma upt_split:
  assumes "[0 ..< n] = ys @ k # zs"
  shows "ys = [0 ..< k]"
proof -
  have "length [0 ..< n] = length (ys @ k # zs)" using assms by simp
  then have lt: "length ys < n" by simp
  have "[0 ..< n] ! length ys = (ys @ k # zs) ! length ys" using assms by simp
  then have k: "k = length ys" using lt by simp
  have "take (length ys) [0 ..< n] = take (length ys) (ys @ k # zs)" using assms by simp
  then show ?thesis using k lt by (simp add: take_upt)
qed

lemma str_int_numerals:
  "str_int 1 = ''1''" "str_int 3 = ''3''" "str_int 5 = ''5''"
  by (simp_all add: str_int_def str_nat.simps)

subsection \<open>An empty budget\<close>

text \<open>
  C10. With \<open>max_retries\<close> zero or negative, \<open>call_gemini\<close> issues no request, sleeps
  not at all, and returns the string
  "Error: Unable to process request after multiple attempts.".
\<close>

theorem call_gemini_no_budget:
  "max_retries \<le> 0 \<Longrightarrow>
     call_gemini generate max_retries =
       (Return ''Error: Unable to process request after multiple attempts.'', [])"
  by (simp add: call_gemini_def py_range_def exhausted_message_def)

theorem call_gemini_no_budget_witness:
  "(0::int) \<le> 0 \<and>
   call_gemini silent_service 0 =
     (Return ''Error: Unable to process request after multiple attempts.'', [])"
  using call_gemini_no_budget [of 0 silent_service] by simp

subsection \<open>A service that never answers with text\<close>

lemma empty_or_invalid_facts:
  "empty_or_invalid r \<Longrightarrow>
     usable_text r = None \<and> \<not> rate_limited r \<and> \<not> expired_credential r \<and>
     error_shown r = empty_response_message"
  by (auto simp: empty_or_invalid_def usable_text_def rate_limited_def expired_credential_def
      error_shown_def)

lemma attempts_all_empty:
  assumes "\<forall>i. empty_or_invalid (generate i)" and "a < n" and "int n = N"
  shows "attempts generate N [a ..< n] =
     (Raised (failed_message N empty_response_message), retried [a ..< n - 1] @ [Generate (n - 1)])"
  using assms
proof (induction "n - a" arbitrary: a)
  case 0
  then show ?case by simp
next
  case (Suc k)
  note e = empty_or_invalid_facts [OF Suc.prems(1) [rule_format, of a]]
  have l1: "[a ..< n] = a # [Suc a ..< n]" using Suc.prems(2) by (simp add: upt_conv_Cons)
  show ?case
  proof (cases "Suc a = n")
    case True
    then have "[Suc a ..< n] = []" "[a ..< n - 1] = []" "n - 1 = a" "int a = N - 1"
      using Suc.prems by auto
    then show ?thesis using e unfolding l1 attempts_Cons by simp
  next
    case False
    then have lt: "Suc a < n" using Suc.prems by simp
    have k: "k = n - Suc a" using Suc.hyps by simp
    note ih = Suc.hyps(1) [OF k Suc.prems(1) lt Suc.prems(3)]
    have ne: "int a \<noteq> N - 1" using lt Suc.prems(3) by linarith
    have l2: "[a ..< n - 1] = a # [Suc a ..< n - 1]" using lt by (simp add: upt_conv_Cons)
    show ?thesis using e ne unfolding l1 l2 attempts_Cons ih by simp
  qed
qed

text \<open>
  C1, as the code has it. For every budget \<open>N \<ge> 1\<close>, when every reply is empty or
  invalid, \<open>call_gemini\<close> issues exactly the \<open>N\<close> requests \<open>0 .. N - 1\<close>, sleeps
  \<open>N - 1\<close> times for 1, 2, 4, ..., \<open>2 ^ (N - 2)\<close> seconds, and ends by raising the
  wrapped failure "Failed to get response from Gemini after N attempts: Empty or invalid
  response received from Gemini". It does not return the sentinel string of line 56.
\<close>

theorem call_gemini_always_empty:
  assumes "1 \<le> N" and "\<forall>i. empty_or_invalid (generate i)"
  shows "fst (call_gemini generate N) =
           Raised (''Failed to get response from Gemini after '' @ str_int N @
                   '' attempts: Empty or invalid response received from Gemini'')
         \<and> requests (snd (call_gemini generate N)) = [0 ..< nat N]
         \<and> length (requests (snd (call_gemini generate N))) = nat N
         \<and> sleeps (snd (call_gemini generate N)) = map (\<lambda>i. 2 ^ i) [0 ..< nat N - 1]"
proof -
  have "0 < nat N" "int (nat N) = N" using assms(1) by simp_all
  from attempts_all_empty [OF assms(2) this]
  have "call_gemini generate N =
     (Raised (failed_message N empty_response_message),
      retried [0 ..< nat N - 1] @ [Generate (nat N - 1)])"
    by (simp add: call_gemini_def py_range_def)
  moreover have "[0 ..< nat N - 1] @ [nat N - 1] = [0 ..< nat N]"
    using \<open>0 < nat N\<close> by (metis Suc_pred' upt_Suc_append zero_le)
  ultimately show ?thesis
    by (simp add: failed_message_def empty_response_message_def)
qed

theorem call_gemini_always_empty_witness:
  "fst (call_gemini silent_service 3) =
     Raised ''Failed to get response from Gemini after 3 attempts: Empty or invalid response received from Gemini''
   \<and> requests (snd (call_gemini silent_service 3)) = [0, 1, 2]
   \<and> sleeps (snd (call_gemini silent_service 3)) = [1, 2]"
proof -
  have h: "\<forall>i. empty_or_invalid (silent_service i)"
    by (simp add: empty_or_invalid_def silent_service_def)
  have n: "[0 ..< nat 3] = [0, 1, 2]" "[0 ..< nat 3 - 1] = [0, 1]"
    by (simp_all add: upt_rec)
  show ?thesis
    using call_gemini_always_empty [of 3 silent_service, OF _ h]
    unfolding n by (simp add: str_int_numerals)
qed

text \<open>
  The claim as the specification words it fails already for a budget of one attempt: the
  run ends in a raised exception, not in the returned sentinel string.
\<close>

theorem call_gemini_always_empty_counterexample:
  "fst (call_gemini silent_service 1) \<noteq>
     Return ''Error: Unable to process request after multiple attempts.''
   \<and> fst (call_gemini silent_service 1) =
     Raised ''Failed to get response from Gemini after 1 attempts: Empty or invalid response received from Gemini''"
  by (simp add: call_gemini_def py_range_def silent_service_def failed_message_def
      empty_response_message_def str_int_numerals)

subsection \<open>An expired credential\<close>

lemma attempts_expired:
  assumes "Generate k \<in> set (snd (attempts generate N xs))" and "expired_credential (generate k)"
  shows "fst (attempts generate N xs) = SessionStopped \<and>
         (\<exists>ys zs. xs = ys @ k # zs \<and> snd (attempts generate N xs) = retried ys @ [Generate k])"
  using assms
proof (induction xs)
  case Nil
  then show ?case by simp
next
  case (Cons a xs)
  show ?case
  proof (cases "k = a")
    case True
    have u: "usable_text (generate a) = None" "\<not> rate_limited (generate a)"
      using Cons.prems(2) True
      by (auto simp: expired_credential_def usable_text_def rate_limited_def split: reply.splits)
    have run: "attempts generate N (a # xs) = (SessionStopped, [Generate a])"
      using u Cons.prems(2) True unfolding attempts_Cons by simp
    have "a # xs = [] @ k # xs \<and> [Generate a] = retried [] @ [Generate k]" using True by simp
    then have "\<exists>ys zs. a # xs = ys @ k # zs \<and> [Generate a] = retried ys @ [Generate k]" by blast
    then show ?thesis unfolding run by simp
  next
    case False
    from Cons.prems(1) False
    have cont: "attempts generate N (a # xs) =
       (fst (attempts generate N xs), Generate a # Sleep (2 ^ a) # snd (attempts generate N xs))"
      and mem: "Generate k \<in> set (snd (attempts generate N xs))"
      unfolding attempts_Cons by (auto split: option.splits if_splits)
    from Cons.IH [OF mem Cons.prems(2)] obtain ys zs where
      st: "fst (attempts generate N xs) = SessionStopped" and
      xs: "xs = ys @ k # zs" and tr: "snd (attempts generate N xs) = retried ys @ [Generate k]"
      by blast
    have "a # xs = (a # ys) @ k # zs \<and>
          Generate a # Sleep (2 ^ a) # snd (attempts generate N xs) = retried (a # ys) @ [Generate k]"
      using xs tr by simp
    then have "\<exists>ys zs. a # xs = ys @ k # zs \<and>
          Generate a # Sleep (2 ^ a) # snd (attempts generate N xs) = retried ys @ [Generate k]"
      by blast
    then show ?thesis unfolding cont using st by simp
  qed
qed

text \<open>
  C3. When the attempt with index \<open>k\<close> (the \<open>k + 1\<close>-th attempt) is issued and its reply
  is the client error with status 400 whose text holds "API key expired", \<open>call_gemini\<close>
  halts there: the outcome is the session stop of \<open>st.stop()\<close>, the trace is the \<open>k\<close>
  earlier attempts, each followed by its sleep, and then request \<open>k\<close> as the last event,
  so no request and no sleep follows it; the attempt lies within the budget; and the
  \<open>except Exception\<close> handler of a caller does not turn the halt into a result.
\<close>

theorem call_gemini_expired_key_halts:
  assumes "Generate k \<in> set (snd (call_gemini generate N))"
    and "generate k = ClientResponseError 400 body shown"
    and "mentions_expired_key shown"
  shows "fst (call_gemini generate N) = SessionStopped
       \<and> snd (call_gemini generate N) = retried [0 ..< k] @ [Generate k]
       \<and> requests (snd (call_gemini generate N)) = [0 ..< Suc k]
       \<and> sleeps (snd (call_gemini generate N)) = map (\<lambda>i. 2 ^ i) [0 ..< k]
       \<and> last (snd (call_gemini generate N)) = Generate k
       \<and> int k < N
       \<and> fst (try_except_Exception (call_gemini generate N) handler) = SessionStopped"
proof -
  have e: "expired_credential (generate k)"
    using assms(2,3) by (simp add: expired_credential_def)
  from attempts_expired [OF assms(1) [unfolded call_gemini_def] e]
  obtain ys zs where
    st: "fst (call_gemini generate N) = SessionStopped" and
    xs: "[0 ..< nat N] = ys @ k # zs" and
    tr: "snd (call_gemini generate N) = retried ys @ [Generate k]"
    unfolding call_gemini_def py_range_def by blast
  have ys: "ys = [0 ..< k]" using upt_split [OF xs] .
  have "k \<in> set [0 ..< nat N]" unfolding xs by simp
  then have lt: "int k < N" by auto
  show ?thesis
    using st lt unfolding tr ys by (simp add: try_except_Exception_def)
qed

theorem call_gemini_expired_key_halts_witness:
  "fst (call_gemini expires_on_third 5) = SessionStopped
   \<and> snd (call_gemini expires_on_third 5) = [Generate 0, Sleep 1, Generate 1, Sleep 2, Generate 2]
   \<and> fst (analyze_resume expires_on_third) = SessionStopped"
proof -
  have key: "mentions_expired_key ''400 API key expired. Please renew the API key.''"
    unfolding mentions_expired_key_def by code_simp
  have run: "call_gemini expires_on_third 5 =
      (SessionStopped, [Generate 0, Sleep 1, Generate 1, Sleep 2, Generate 2])"
    using key
    by (simp add: call_gemini_def py_range_def expires_on_third_def silent_service_def
        expired_key_service_def upt_rec failed_message_def)
  have mem: "Generate 2 \<in> set (snd (call_gemini expires_on_third 5))"
    unfolding run by simp
  have rep: "expires_on_third 2 = ClientResponseError 400 ''API key expired. Please renew the API key.''
       ''400 API key expired. Please renew the API key.''"
    by (simp add: expires_on_third_def expired_key_service_def)
  have r: "retried [0 ..< 2] @ [Generate 2] = [Generate 0, Sleep 1, Generate 1, Sleep 2, Generate 2]"
    by (simp add: upt_rec)
  show ?thesis
    using call_gemini_expired_key_halts [OF mem rep key, where handler = "(@) ''Error analyzing resume: ''"]
    unfolding r analyze_resume_def by simp
qed

subsection \<open>A rate-limited service\<close>

lemma attempts_all_throttled:
  assumes "\<forall>i. rate_limited (generate i)"
  shows "attempts generate N xs = (Return exhausted_message, retried xs)"
proof (induction xs)
  case Nil
  show ?case by simp
next
  case (Cons a xs)
  have "rate_limited (generate a)" using assms by simp
  moreover from this have "usable_text (generate a) = None"
    by (auto simp: rate_limited_def usable_text_def split: reply.splits)
  ultimately show ?case unfolding attempts_Cons Cons.IH by simp
qed

text \<open>
  C2, at the input where the code departs from it. For every budget \<open>N \<ge> 1\<close>, when every
  reply is the rate-limit error (status 429), the handler of line 41 sleeps after every
  attempt, the last one included: the run issues the \<open>N\<close> requests, sleeps \<open>N\<close> times
  for 1, 2, ..., \<open>2 ^ (N - 1)\<close> seconds, its last event is the sleep of
  \<open>2 ^ (N - 1)\<close> seconds after the final attempt, and only then the sentinel string is
  returned.
\<close>

theorem call_gemini_rate_limit_sleeps_after_last_attempt:
  assumes "1 \<le> N" and "\<forall>i. rate_limited (generate i)"
  shows "fst (call_gemini generate N) = Return ''Error: Unable to process request after multiple attempts.''
       \<and> requests (snd (call_gemini generate N)) = [0 ..< nat N]
       \<and> sleeps (snd (call_gemini generate N)) = map (\<lambda>i. 2 ^ i) [0 ..< nat N]
       \<and> last (snd (call_gemini generate N)) = Sleep (2 ^ (nat N - 1))"
proof -
  have run: "call_gemini generate N = (Return exhausted_message, retried [0 ..< nat N])"
    unfolding call_gemini_def py_range_def by (rule attempts_all_throttled [OF assms(2)])
  have "[0 ..< nat N] = [0 ..< nat N - 1] @ [nat N - 1]"
    using assms(1) by (metis Suc_pred' upt_Suc_append zero_le zero_less_nat_eq zless_iff_Suc_zadd add.commute less_le_trans zero_less_one)
  then have "retried [0 ..< nat N] = retried [0 ..< nat N - 1] @ [Generate (nat N - 1), Sleep (2 ^ (nat N - 1))]"
    by (simp add: retried_def)
  then have "last (retried [0 ..< nat N]) = Sleep (2 ^ (nat N - 1))" by simp
  then show ?thesis unfolding run by (simp add: exhausted_message_def)
qed

theorem call_gemini_rate_limit_sleeps_after_last_attempt_witness:
  "call_gemini throttling_service 1 =
     (Return ''Error: Unable to process request after multiple attempts.'', [Generate 0, Sleep 1])"
proof -
  have h: "\<forall>i. rate_limited (throttling_service i)"
    by (simp add: rate_limited_def throttling_service_def)
  have "snd (call_gemini throttling_service 1) = [Generate 0, Sleep 1]"
    by (simp add: call_gemini_def py_range_def throttling_service_def)
  then show ?thesis
    using call_gemini_rate_limit_sleeps_after_last_attempt [of 1 throttling_service, OF _ h]
    by (simp add: prod_eq_iff)
qed

text \<open>
  On the other paths the final attempt is not followed by a sleep: when the reply to the
  last attempt of the budget is no rate-limit error, the trace ends with a request.
\<close>

lemma attempts_ends_with_request:
  assumes "a < n" and "int n = N" and "\<not> rate_limited (generate (n - 1))"
  shows "\<exists>ys k. snd (attempts generate N [a ..< n]) = retried ys @ [Generate k]"
  using assms
proof (induction "n - a" arbitrary: a)
  case 0
  then show ?case by simp
next
  case (Suc m)
  have l1: "[a ..< n] = a # [Suc a ..< n]" using Suc.prems(1) by (simp add: upt_conv_Cons)
  have stop: "\<exists>ys k. [Generate a] = retried ys @ [Generate k]"
  proof -
    have "[Generate a] = retried [] @ [Generate a]" by simp
    then show ?thesis by blast
  qed
  show ?case
  proof (cases "Suc a = n")
    case True
    then have last: "n - 1 = a" "int a = N - 1" using Suc.prems by auto
    show ?thesis
      using stop Suc.prems(3) unfolding l1 attempts_Cons last
      by (simp split: option.split)
  next
    case False
    then have lt: "Suc a < n" using Suc.prems by simp
    have m: "m = n - Suc a" using Suc.hyps by simp
    from Suc.hyps(1) [OF m lt Suc.prems(2,3)] obtain ys k where
      ih: "snd (attempts generate N [Suc a ..< n]) = retried ys @ [Generate k]" by blast
    have "Generate a # Sleep (2 ^ a) # snd (attempts generate N [Suc a ..< n])
          = retried (a # ys) @ [Generate k]"
      unfolding ih by simp
    then have cont: "\<exists>ys k. Generate a # Sleep (2 ^ a) # snd (attempts generate N [Suc a ..< n])
          = retried ys @ [Generate k]" by blast
    show ?thesis
      using stop cont unfolding l1 attempts_Cons
      by (simp split: option.split)
  qed
qed

lemma call_gemini_no_sleep_after_last_attempt:
  assumes "1 \<le> N" and "\<not> rate_limited (generate (nat N - 1))"
  shows "\<exists>ys k. snd (call_gemini generate N) = retried ys @ [Generate k]"
proof -
  have "0 < nat N" and "int (nat N) = N" using assms(1) by simp_all
  then have "\<exists>ys k. snd (attempts generate N [0 ..< nat N]) = retried ys @ [Generate k]"
    using assms(2) by (rule attempts_ends_with_request [where a = 0 and n = "nat N"])
  then show ?thesis by (simp add: call_gemini_def py_range_def)
qed

section \<open>Properties of the analysis functions\<close>

lemma attempts_requests_within:
  "Generate k \<in> set (snd (attempts generate N xs)) \<Longrightarrow> k \<in> set xs"
proof (induction xs)
  case Nil
  then show ?case by simp
next
  case (Cons a xs)
  from Cons.prems have "k = a \<or> Generate k \<in> set (snd (attempts generate N xs))"
    unfolding attempts_Cons by (auto split: option.splits if_splits)
  with Cons.IH show ?case by auto
qed

lemma attempts_stopped_only_if_expired:
  "fst (attempts generate N xs) = SessionStopped \<Longrightarrow>
     \<exists>k. Generate k \<in> set (snd (attempts generate N xs)) \<and> expired_credential (generate k)"
proof (induction xs)
  case Nil
  then show ?case by simp
next
  case (Cons a xs)
  from Cons.prems have
    "(expired_credential (generate a) \<and> snd (attempts generate N (a # xs)) = [Generate a])
     \<or> (fst (attempts generate N xs) = SessionStopped
        \<and> snd (attempts generate N (a # xs)) =
            Generate a # Sleep (2 ^ a) # snd (attempts generate N xs))"
    unfolding attempts_Cons by (auto split: option.splits if_splits)
  then show ?case
  proof
    assume "expired_credential (generate a) \<and> snd (attempts generate N (a # xs)) = [Generate a]"
    then have "Generate a \<in> set (snd (attempts generate N (a # xs))) \<and>
        expired_credential (generate a)" by simp
    then show ?thesis by blast
  next
    assume c: "fst (attempts generate N xs) = SessionStopped
        \<and> snd (attempts generate N (a # xs)) =
            Generate a # Sleep (2 ^ a) # snd (attempts generate N xs)"
    with Cons.IH obtain k where
      "Generate k \<in> set (snd (attempts generate N xs))" "expired_credential (generate k)"
      by blast
    with c have "Generate k \<in> set (snd (attempts generate N (a # xs))) \<and>
        expired_credential (generate k)" by simp
    then show ?thesis by blast
  qed
qed

lemma attempts_raised_form:
  "fst (attempts generate N xs) = Raised shown \<Longrightarrow>
     \<exists>k. k \<in> set xs \<and> int k = N - 1 \<and> shown = failed_message N (error_shown (generate k))"
proof (induction xs)
  case Nil
  then show ?case by simp
next
  case (Cons a xs)
  from Cons.prems have
    "(int a = N - 1 \<and> shown = failed_message N (error_shown (generate a)))
     \<or> fst (attempts generate N xs) = Raised shown"
    unfolding attempts_Cons by (auto split: option.splits if_splits)
  then show ?case
  proof
    assume "int a = N - 1 \<and> shown = failed_message N (error_shown (generate a))"
    then have "a \<in> set (a # xs) \<and> int a = N - 1 \<and>
        shown = failed_message N (error_shown (generate a))" by simp
    then show ?thesis by blast
  next
    assume "fst (attempts generate N xs) = Raised shown"
    with Cons.IH obtain k where
      "k \<in> set xs" "int k = N - 1" "shown = failed_message N (error_shown (generate k))"
      by blast
    then have "k \<in> set (a # xs) \<and> int k = N - 1 \<and>
        shown = failed_message N (error_shown (generate k))" by simp
    then show ?thesis by blast
  qed
qed

lemma call_gemini_stopped_iff:
  "fst (call_gemini generate N) = SessionStopped \<longleftrightarrow>
     (\<exists>k. int k < N \<and> Generate k \<in> set (snd (call_gemini generate N)) \<and>
          expired_credential (generate k))"
proof
  assume "fst (call_gemini generate N) = SessionStopped"
  from attempts_stopped_only_if_expired [OF this [unfolded call_gemini_def]]
  obtain k where m: "Generate k \<in> set (snd (attempts generate N (py_range N)))"
    and e: "expired_credential (generate k)" by blast
  from attempts_requests_within [OF m] have "int k < N" by (auto simp: py_range_def)
  with m e show "\<exists>k. int k < N \<and> Generate k \<in> set (snd (call_gemini generate N)) \<and>
      expired_credential (generate k)"
    unfolding call_gemini_def by blast
next
  assume "\<exists>k. int k < N \<and> Generate k \<in> set (snd (call_gemini generate N)) \<and>
      expired_credential (generate k)"
  then obtain k where m: "Generate k \<in> set (snd (attempts generate N (py_range N)))"
    and e: "expired_credential (generate k)"
    unfolding call_gemini_def by blast
  from attempts_expired [OF m e] show "fst (call_gemini generate N) = SessionStopped"
    unfolding call_gemini_def by simp
qed

lemma call_gemini_raised_form:
  assumes "fst (call_gemini generate N) = Raised shown"
  shows "shown = failed_message N (error_shown (generate (nat N - 1)))"
proof -
  from attempts_raised_form [OF assms [unfolded call_gemini_def]]
  obtain k where "k \<in> set (py_range N)" "int k = N - 1"
    and s: "shown = failed_message N (error_shown (generate k))" by blast
  then have "k = nat N - 1" by (auto simp: py_range_def)
  with s show ?thesis by simp
qed

lemma analysis_function_outcome:
  assumes "(doing, f) \<in> set analysis_functions"
  shows "fst (f generate) =
           (case fst (call_gemini generate 5) of
              Return t \<Rightarrow> Return t
            | Raised shown \<Rightarrow> Return (''Error '' @ doing @ '': '' @ shown)
            | SessionStopped \<Rightarrow> SessionStopped)
         \<and> snd (f generate) = snd (call_gemini generate 5)"
  using assms
  unfolding analysis_functions_def analyze_resume_def get_match_score_def optimize_resume_def
    check_grammar_def keyword_density_def suggest_roles_def section_check_def
    generate_cover_letter_def salary_insights_def skill_gap_analysis_def
    generate_interview_questions_def generate_branding_statement_def
  by (auto simp: try_except_Exception_def split: outcome.split)

text \<open>
  C4, as the code has it. Each of the twelve analysis functions turns every \<open>Exception\<close>
  that \<open>call_gemini\<close> raises into the returned string "Error <doing X>: <message>",
  passes a returned text on unchanged, and never raises an \<open>Exception\<close> itself; its
  effects are those of the one call. The message is the wrapped failure of the fifth
  attempt. The caller receives a string on every path but one: the outcome is the session
  stop exactly when one of the five attempts was issued and met the expired-credential
  error, so with no such reply within the budget the result always is a string.
\<close>

theorem analysis_functions_stringify:
  assumes "(doing, f) \<in> set analysis_functions"
  shows "fst (f generate) =
           (case fst (call_gemini generate 5) of
              Return t \<Rightarrow> Return t
            | Raised shown \<Rightarrow> Return (''Error '' @ doing @ '': '' @ shown)
            | SessionStopped \<Rightarrow> SessionStopped)
         \<and> (\<forall>shown. fst (f generate) \<noteq> Raised shown)
         \<and> snd (f generate) = snd (call_gemini generate 5)
         \<and> (fst (f generate) = SessionStopped \<longleftrightarrow>
              (\<exists>k<5. Generate k \<in> set (snd (f generate)) \<and> expired_credential (generate k)))
         \<and> ((\<forall>k<5. \<not> expired_credential (generate k)) \<longrightarrow>
              (\<exists>s. fst (f generate) = Return s))
         \<and> (\<forall>shown. fst (call_gemini generate 5) = Raised shown \<longrightarrow>
              fst (f generate) =
                Return (''Error '' @ doing @
                  '': Failed to get response from Gemini after 5 attempts: '' @
                  error_shown (generate 4)))"
proof -
  have old: "fst (f generate) =
           (case fst (call_gemini generate 5) of
              Return t \<Rightarrow> Return t
            | Raised shown \<Rightarrow> Return (''Error '' @ doing @ '': '' @ shown)
            | SessionStopped \<Rightarrow> SessionStopped)"
    and tr: "snd (f generate) = snd (call_gemini generate 5)"
    using analysis_function_outcome [OF assms, of generate] by simp_all
  have never: "\<forall>shown. fst (f generate) \<noteq> Raised shown"
    unfolding old by (simp split: outcome.split)
  have same: "fst (f generate) = SessionStopped \<longleftrightarrow> fst (call_gemini generate 5) = SessionStopped"
    unfolding old by (simp split: outcome.split)
  have stop: "fst (f generate) = SessionStopped \<longleftrightarrow>
      (\<exists>k<5. Generate k \<in> set (snd (f generate)) \<and> expired_credential (generate k))"
    unfolding same tr call_gemini_stopped_iff by auto
  have str: "(\<forall>k<5. \<not> expired_credential (generate k)) \<longrightarrow> (\<exists>s. fst (f generate) = Return s)"
  proof
    assume "\<forall>k<5. \<not> expired_credential (generate k)"
    with stop have "fst (f generate) \<noteq> SessionStopped" by blast
    with never show "\<exists>s. fst (f generate) = Return s" by (cases "fst (f generate)") auto
  qed
  have msg: "\<forall>shown. fst (call_gemini generate 5) = Raised shown \<longrightarrow>
      fst (f generate) =
        Return (''Error '' @ doing @
          '': Failed to get response from Gemini after 5 attempts: '' @
          error_shown (generate 4))"
  proof (intro allI impI)
    fix shown
    assume r: "fst (call_gemini generate 5) = Raised shown"
    from call_gemini_raised_form [OF r]
    have "shown = ''Failed to get response from Gemini after 5 attempts: '' @
        error_shown (generate 4)"
      by (simp add: failed_message_def str_int_numerals)
    then show "fst (f generate) =
        Return (''Error '' @ doing @
          '': Failed to get response from Gemini after 5 attempts: '' @
          error_shown (generate 4))"
      unfolding old r by simp
  qed
  show ?thesis using old never tr stop str msg by blast
qed

theorem analysis_functions_stringify_witness:
  "fst (analyze_resume silent_service) =
     Return ''Error analyzing resume: Failed to get response from Gemini after 5 attempts: Empty or invalid response received from Gemini''"
proof -
  have m: "(''analyzing resume'', analyze_resume) \<in> set analysis_functions"
    by (simp add: analysis_functions_def)
  have run: "fst (call_gemini silent_service 5) =
     Raised ''Failed to get response from Gemini after 5 attempts: Empty or invalid response received from Gemini''"
    by (simp add: call_gemini_def py_range_def silent_service_def upt_rec failed_message_def
        empty_response_message_def str_int_numerals)
  show ?thesis
    using analysis_functions_stringify [OF m, of silent_service] unfolding run by simp
qed

text \<open>
  With an expired credential the caller of \<open>analyze_resume\<close> receives no string: the
  session is stopped.
\<close>

theorem analysis_functions_stringify_counterexample:
  "fst (analyze_resume expired_key_service) = SessionStopped"
proof -
  have key: "mentions_expired_key ''400 API key expired. Please renew the API key.''"
    unfolding mentions_expired_key_def by code_simp
  show ?thesis
    using key
    by (simp add: analyze_resume_def try_except_Exception_def call_gemini_def py_range_def
        expired_key_service_def upt_rec)
qed

section \<open>Properties of the interaction log\<close>

subsection \<open>Loading\<close>

text \<open>
  C5, as the code has it. On a store file for which \<open>open\<close> and \<open>json.load\<close> raise
  nothing but \<open>IOError\<close> or \<open>JSONDecodeError\<close> (a missing or unreadable file, a text
  that is no JSON, a text that yields a JSON value) \<open>load_db_data\<close> does not raise and
  returns a dictionary that holds the keys \<open>users\<close> and \<open>history\<close>. For a missing
  file, for a file whose text is no JSON (as \<open>not json{\<close>), for an unreadable file and
  for the file \<open>{"foo": 1}\<close> the result is the empty structure
  \<open>{"users": [], "history": []}\<close>, which has a list under each key; a loaded value is
  returned unchanged when it is a dictionary with both keys, whatever stands under them,
  and replaced by the empty structure otherwise.
\<close>

theorem load_db_data_fail_open:
  assumes "\<forall>e. read_json file = Inl e \<longrightarrow> e = IOError \<or> e = JSONDecodeError"
  shows "(\<exists>items. load_db_data file = Inr (JObj items) \<and>
       ''users'' \<in> set (map fst items) \<and> ''history'' \<in> set (map fst items))
   \<and> load_db_data Missing = Inr (JObj [(''users'', JArr []), (''history'', JArr [])])
   \<and> load_db_data Malformed = Inr (JObj [(''users'', JArr []), (''history'', JArr [])])
   \<and> load_db_data Unreadable = Inr (JObj [(''users'', JArr []), (''history'', JArr [])])
   \<and> load_db_data (Stored (JObj [(''foo'', JNum 1)])) =
       Inr (JObj [(''users'', JArr []), (''history'', JArr [])])
   \<and> has_list_shape (JObj [(''users'', JArr []), (''history'', JArr [])])
   \<and> load_db_data (Stored data) =
       Inr (if has_expected_keys data then data
            else JObj [(''users'', JArr []), (''history'', JArr [])])"
proof -
  have shape: "\<exists>items. load_db_data file = Inr (JObj items) \<and>
       ''users'' \<in> set (map fst items) \<and> ''history'' \<in> set (map fst items)"
  proof (cases "file")
    case (Stored data)
    then show ?thesis by (cases data) (auto simp: load_db_data_def)
  qed (insert assms, simp_all add: load_db_data_def)
  have kept: "load_db_data (Stored data) =
       Inr (if has_expected_keys data then data
            else JObj [(''users'', JArr []), (''history'', JArr [])])"
    by (cases data) (simp_all add: load_db_data_def has_expected_keys_def)
  show ?thesis using shape kept by (simp add: load_db_data_def has_list_shape_def)
qed

theorem load_db_data_fail_open_witness:
  "(\<exists>items. load_db_data Malformed = Inr (JObj items) \<and>
       ''users'' \<in> set (map fst items) \<and> ''history'' \<in> set (map fst items))
   \<and> load_db_data Malformed = Inr (JObj [(''users'', JArr []), (''history'', JArr [])])
   \<and> load_db_data (Stored ada_store) = Inr ada_store"
proof -
  have h: "\<forall>e. read_json Malformed = Inl e \<longrightarrow> e = IOError \<or> e = JSONDecodeError"
    by simp
  have k: "has_expected_keys ada_store"
    by (simp add: has_expected_keys_def ada_store_def)
  show ?thesis
    using load_db_data_fail_open [OF h, of ada_store] k by simp
qed

text \<open>
  The claim as the specification words it fails in two ways. A dictionary with both keys
  but no list under them is returned as it is, so the result need not have the shape
  \<open>{"users": [...], "history": [...]}\<close>. And a store file whose bytes are no text, whose
  JSON nests too deep or holds an over-long integer makes \<open>load_db_data\<close> raise, since
  the handlers of lines 24 to 29 do not catch these exceptions.
\<close>

theorem load_db_data_counterexample:
  "load_db_data (Stored odd_store) = Inr odd_store
   \<and> \<not> has_list_shape odd_store
   \<and> load_db_data Undecodable = Inl UnicodeDecodeError
   \<and> load_db_data Overnested = Inl RecursionError
   \<and> load_db_data Overlong = Inl ValueError"
  by (simp add: load_db_data_def odd_store_def has_list_shape_def)

subsection \<open>Recording\<close>

lemma map_of_set_item: "map_of (set_item key v items) = (map_of items)(key \<mapsto> v)"
  by (induction items) (auto simp: fun_eq_iff)

lemma find_user_records:
  "list_all is_record us \<Longrightarrow> find_user user_email us = Inr (JStr user_email \<in> set (map email_of us))"
proof (induction us)
  case Nil
  show ?case by simp
next
  case (Cons u us)
  then obtain items where u: "u = JObj items" by (cases u) simp_all
  from Cons show ?case by (simp add: u email_of_def)
qed

lemma well_formed_store_iff:
  "well_formed_store db_data =
     (\<exists>items us hs. db_data = JObj items \<and> map_of items ''users'' = Some (JArr us) \<and>
        map_of items ''history'' = Some (JArr hs) \<and> list_all is_record us)"
  by (cases db_data) (auto simp: well_formed_store_def split: option.splits json.splits)

lemma well_formed_storeE:
  assumes "well_formed_store db_data"
  obtains items us hs where "db_data = JObj items"
    and "map_of items ''users'' = Some (JArr us)"
    and "map_of items ''history'' = Some (JArr hs)"
    and "list_all is_record us"
  using assms unfolding well_formed_store_iff by blast

lemma record_update_well_formed:
  assumes "well_formed_store db_data"
  shows "\<exists>db_data'.
      record_update now user_name user_email analysis_type job_description ai_response db_data
        = Inr db_data'
    \<and> history_of db_data' = history_of db_data @
        [history_entry now user_name user_email analysis_type job_description ai_response]
    \<and> users_of db_data' =
        (if user_email \<noteq> [] \<and> JStr user_email \<notin> set (map email_of (users_of db_data))
         then users_of db_data @ [JObj [(''name'', JStr user_name), (''email'', JStr user_email)]]
         else users_of db_data)"
proof -
  from assms obtain items us hs where d: "db_data = JObj items"
    and u: "map_of items ''users'' = Some (JArr us)"
    and h: "map_of items ''history'' = Some (JArr hs)"
    and r: "list_all is_record us"
    by (rule well_formed_storeE)
  note f = find_user_records [OF r, of user_email]
  have uo: "users_of db_data = us" and ho: "history_of db_data = hs"
    by (simp_all add: users_of_def history_of_def d u h)
  show ?thesis
    unfolding uo ho
    by (simp add: record_update_def d u h f append_under_def map_of_set_item
        users_of_def history_of_def)
qed

lemma record_interaction_well_formed:
  assumes "load_db_data (db_file d) = Inr db_data" and "well_formed_store db_data"
    and "\<not> write_fails d"
  shows "\<exists>db_data'.
      record_interaction now user_name user_email analysis_type job_description ai_response d
        = (Inr (), d\<lparr>db_file := Stored db_data'\<rparr>)
    \<and> history_of db_data' = history_of db_data @
        [history_entry now user_name user_email analysis_type job_description ai_response]
    \<and> users_of db_data' =
        (if user_email \<noteq> [] \<and> JStr user_email \<notin> set (map email_of (users_of db_data))
         then users_of db_data @ [JObj [(''name'', JStr user_name), (''email'', JStr user_email)]]
         else users_of db_data)"
proof -
  from record_update_well_formed [OF assms(2), of now user_name user_email analysis_type
      job_description ai_response]
  obtain db_data' where
    r: "record_update now user_name user_email analysis_type job_description ai_response db_data
        = Inr db_data'"
    and rest: "history_of db_data' = history_of db_data @
        [history_entry now user_name user_email analysis_type job_description ai_response]"
      "users_of db_data' =
        (if user_email \<noteq> [] \<and> JStr user_email \<notin> set (map email_of (users_of db_data))
         then users_of db_data @ [JObj [(''name'', JStr user_name), (''email'', JStr user_email)]]
         else users_of db_data)"
    by blast
  have "record_interaction now user_name user_email analysis_type job_description ai_response d
        = (Inr (), d\<lparr>db_file := Stored db_data'\<rparr>)"
    using assms(1,3) r by (simp add: record_interaction_def save_db_data_def)
  with rest show ?thesis by blast
qed

lemma load_db_data_well_formed:
  assumes "well_formed_store db_data"
  shows "load_db_data (Stored db_data) = Inr db_data"
proof -
  from assms obtain items us hs where d: "db_data = JObj items"
    and u: "map_of items ''users'' = Some (JArr us)"
    and h: "map_of items ''history'' = Some (JArr hs)"
    by (rule well_formed_storeE)
  from u have "(''users'', JArr us) \<in> set items" by (rule map_of_SomeD)
  then have ku: "''users'' \<in> fst ` set items" by (rule image_eqI [rotated]) simp
  from h have "(''history'', JArr hs) \<in> set items" by (rule map_of_SomeD)
  then have kh: "''history'' \<in> fst ` set items" by (rule image_eqI [rotated]) simp
  show ?thesis using ku kh by (simp add: load_db_data_def d)
qed

lemma record_update_keeps_well_formed:
  assumes "well_formed_store db_data"
    and "record_update now user_name user_email analysis_type job_description ai_response db_data
        = Inr db_data'"
  shows "well_formed_store db_data'"
proof -
  from assms(1) obtain items us hs where d: "db_data = JObj items"
    and u: "map_of items ''users'' = Some (JArr us)"
    and h: "map_of items ''history'' = Some (JArr hs)"
    and r: "list_all is_record us"
    by (rule well_formed_storeE)
  note f = find_user_records [OF r, of user_email]
  show ?thesis
    using assms(2) r
    by (auto simp: record_update_def d u h f append_under_def map_of_set_item
        well_formed_store_def split: if_splits)
qed

text \<open>
  C6. The store file holds a store whose users are a list of records and whose history is
  a list, and the file is writable. Then \<open>record_interaction\<close> succeeds and saves a
  store of the same kind, which the next call loads as it is, whose history is the stored
  one with exactly one entry appended. When the email is already the email of a stored
  user, the users (and so their number) are unchanged. When it is an email not seen yet (a
  non-empty string: an empty \<open>user_email\<close> means no email was given, and line 57 then
  adds no user), exactly one user record with the given name and email is appended. So
  users whose emails are distinct stay so.
\<close>

theorem record_interaction_users_deduplicated:
  assumes "db_file d = Stored db_data" and "well_formed_store db_data"
    and "\<not> write_fails d"
  shows "\<exists>db_data'.
      record_interaction now user_name user_email analysis_type job_description ai_response d
        = (Inr (), d\<lparr>db_file := Stored db_data'\<rparr>)
    \<and> well_formed_store db_data'
    \<and> load_db_data (Stored db_data') = Inr db_data'
    \<and> history_of db_data' = history_of db_data @
        [history_entry now user_name user_email analysis_type job_description ai_response]
    \<and> length (history_of db_data') = length (history_of db_data) + 1
    \<and> butlast (history_of db_data') = history_of db_data
    \<and> (JStr user_email \<in> set (map email_of (users_of db_data)) \<longrightarrow>
         users_of db_data' = users_of db_data)
    \<and> (user_email \<noteq> [] \<and> JStr user_email \<notin> set (map email_of (users_of db_data)) \<longrightarrow>
         users_of db_data' =
           users_of db_data @ [JObj [(''name'', JStr user_name), (''email'', JStr user_email)]])
    \<and> (user_email = [] \<longrightarrow> users_of db_data' = users_of db_data)
    \<and> (distinct (map email_of (users_of db_data)) \<longrightarrow>
         distinct (map email_of (users_of db_data')))"
proof -
  have load: "load_db_data (db_file d) = Inr db_data"
    unfolding assms(1) by (rule load_db_data_well_formed [OF assms(2)])
  from record_update_well_formed [OF assms(2), of now user_name user_email analysis_type
      job_description ai_response]
  obtain db_data' where
    r: "record_update now user_name user_email analysis_type job_description ai_response db_data
        = Inr db_data'"
    and h: "history_of db_data' = history_of db_data @
        [history_entry now user_name user_email analysis_type job_description ai_response]"
    and u: "users_of db_data' =
        (if user_email \<noteq> [] \<and> JStr user_email \<notin> set (map email_of (users_of db_data))
         then users_of db_data @ [JObj [(''name'', JStr user_name), (''email'', JStr user_email)]]
         else users_of db_data)"
    by blast
  have run: "record_interaction now user_name user_email analysis_type job_description
        ai_response d = (Inr (), d\<lparr>db_file := Stored db_data'\<rparr>)"
    using load assms(3) r by (simp add: record_interaction_def save_db_data_def)
  have wf: "well_formed_store db_data'"
    by (rule record_update_keeps_well_formed [OF assms(2) r])
  note again = load_db_data_well_formed [OF wf]
  have e: "email_of (JObj [(''name'', JStr user_name), (''email'', JStr user_email)]) = JStr user_email"
    by (simp add: email_of_def)
  have dist: "distinct (map email_of (users_of db_data)) \<longrightarrow>
      distinct (map email_of (users_of db_data'))"
    unfolding u using e by simp
  have facts: "well_formed_store db_data'
    \<and> load_db_data (Stored db_data') = Inr db_data'
    \<and> history_of db_data' = history_of db_data @
        [history_entry now user_name user_email analysis_type job_description ai_response]
    \<and> length (history_of db_data') = length (history_of db_data) + 1
    \<and> butlast (history_of db_data') = history_of db_data
    \<and> (JStr user_email \<in> set (map email_of (users_of db_data)) \<longrightarrow>
         users_of db_data' = users_of db_data)
    \<and> (user_email \<noteq> [] \<and> JStr user_email \<notin> set (map email_of (users_of db_data)) \<longrightarrow>
         users_of db_data' =
           users_of db_data @ [JObj [(''name'', JStr user_name), (''email'', JStr user_email)]])
    \<and> (user_email = [] \<longrightarrow> users_of db_data' = users_of db_data)
    \<and> (distinct (map email_of (users_of db_data)) \<longrightarrow>
         distinct (map email_of (users_of db_data')))"
    using wf again h u dist by simp
  from run facts show ?thesis by blast
qed

text \<open>
  On a store that holds the user Ada and one earlier interaction: recording with Ada's
  email leaves the one user and appends to the one entry; recording with a new email
  appends the user Bob as well.
\<close>

theorem record_interaction_users_deduplicated_witness:
  "(\<exists>db_data'.
      record_interaction ''2026-11-04T12:00:00'' ''Ada'' ''ada@example.org'' ''Match score''
          ''Engineer wanted'' ''MATCH SCORE: 75%'' ada_disk
        = (Inr (), ada_disk\<lparr>db_file := Stored db_data'\<rparr>)
    \<and> users_of db_data' = [ada_user]
    \<and> history_of db_data' =
        [earlier_entry,
         history_entry ''2026-11-04T12:00:00'' ''Ada'' ''ada@example.org'' ''Match score''
           ''Engineer wanted'' ''MATCH SCORE: 75%''])
   \<and> (\<exists>db_data'.
      record_interaction ''2026-11-04T12:00:00'' ''Bob'' ''bob@example.org'' ''Match score''
          ''Engineer wanted'' ''MATCH SCORE: 75%'' ada_disk
        = (Inr (), ada_disk\<lparr>db_file := Stored db_data'\<rparr>)
    \<and> users_of db_data' =
        [ada_user, JObj [(''name'', JStr ''Bob''), (''email'', JStr ''bob@example.org'')]]
    \<and> history_of db_data' =
        [earlier_entry,
         history_entry ''2026-11-04T12:00:00'' ''Bob'' ''bob@example.org'' ''Match score''
           ''Engineer wanted'' ''MATCH SCORE: 75%''])"
proof -
  have h1: "db_file ada_disk = Stored ada_store" by (simp add: ada_disk_def)
  have h2: "well_formed_store ada_store"
    by (simp add: well_formed_store_def ada_store_def ada_user_def)
  have h3: "\<not> write_fails ada_disk" by (simp add: ada_disk_def)
  have us: "users_of ada_store = [ada_user]" and hs: "history_of ada_store = [earlier_entry]"
    by (simp_all add: users_of_def history_of_def ada_store_def)
  have em: "email_of ada_user = JStr ''ada@example.org''"
    by (simp add: email_of_def ada_user_def)
  have ada: "\<exists>db_data'.
      record_interaction ''2026-11-04T12:00:00'' ''Ada'' ''ada@example.org'' ''Match score''
          ''Engineer wanted'' ''MATCH SCORE: 75%'' ada_disk
        = (Inr (), ada_disk\<lparr>db_file := Stored db_data'\<rparr>)
    \<and> users_of db_data' = [ada_user]
    \<and> history_of db_data' =
        [earlier_entry,
         history_entry ''2026-11-04T12:00:00'' ''Ada'' ''ada@example.org'' ''Match score''
           ''Engineer wanted'' ''MATCH SCORE: 75%'']"
    using record_interaction_users_deduplicated [OF h1 h2 h3, of "''2026-11-04T12:00:00''"
        "''Ada''" "''ada@example.org''" "''Match score''" "''Engineer wanted''"
        "''MATCH SCORE: 75%''"]
    by (auto simp: us hs em)
  have bob: "\<exists>db_data'.
      record_interaction ''2026-11-04T12:00:00'' ''Bob'' ''bob@example.org'' ''Match score''
          ''Engineer wanted'' ''MATCH SCORE: 75%'' ada_disk
        = (Inr (), ada_disk\<lparr>db_file := Stored db_data'\<rparr>)
    \<and> users_of db_data' =
        [ada_user, JObj [(''name'', JStr ''Bob''), (''email'', JStr ''bob@example.org'')]]
    \<and> history_of db_data' =
        [earlier_entry,
         history_entry ''2026-11-04T12:00:00'' ''Bob'' ''bob@example.org'' ''Match score''
           ''Engineer wanted'' ''MATCH SCORE: 75%'']"
    using record_interaction_users_deduplicated [OF h1 h2 h3, of "''2026-11-04T12:00:00''"
        "''Bob''" "''bob@example.org''" "''Match score''" "''Engineer wanted''"
        "''MATCH SCORE: 75%''"]
    by (auto simp: us hs em)
  from ada bob show ?thesis by blast
qed

lemma length_excerpt: "length (excerpt limit s) \<le> limit + 3"
  by (simp add: excerpt_def)

text \<open>
  C7. Under the same conditions the entry that \<open>record_interaction\<close> appends to the
  history stores, under \<open>job_description_excerpt\<close>, a job description of more than 200
  characters as its first 200 characters followed by the three characters \<open>...\<close> (203
  characters), and one of at most 200 characters unchanged; under
  \<open>ai_response_excerpt\<close> it stores the response likewise with the limit 500, so at most
  503 characters.
\<close>

theorem record_interaction_excerpts:
  assumes "load_db_data (db_file d) = Inr db_data" and "well_formed_store db_data"
    and "\<not> write_fails d"
  shows "\<exists>db_data' entry jd resp.
      record_interaction now user_name user_email analysis_type job_description ai_response d
        = (Inr (), d\<lparr>db_file := Stored db_data'\<rparr>)
    \<and> history_of db_data' = history_of db_data @ [entry]
    \<and> py_getitem entry ''job_description_excerpt'' = Inr (JStr jd)
    \<and> py_getitem entry ''ai_response_excerpt'' = Inr (JStr resp)
    \<and> jd = (if 200 < length job_description then take 200 job_description @ ''...''
             else job_description)
    \<and> resp = (if 500 < length ai_response then take 500 ai_response @ ''...'' else ai_response)
    \<and> length jd \<le> 203 \<and> length resp \<le> 503
    \<and> (200 < length job_description \<longrightarrow> length jd = 203)"
proof -
  from record_interaction_well_formed [OF assms, of now user_name user_email analysis_type
      job_description ai_response]
  obtain db_data' where
    run: "record_interaction now user_name user_email analysis_type job_description ai_response d
        = (Inr (), d\<lparr>db_file := Stored db_data'\<rparr>)"
    and h: "history_of db_data' = history_of db_data @
        [history_entry now user_name user_email analysis_type job_description ai_response]"
    by blast
  let ?entry = "history_entry now user_name user_email analysis_type job_description ai_response"
  have jd: "py_getitem ?entry ''job_description_excerpt'' = Inr (JStr (excerpt 200 job_description))"
    and resp: "py_getitem ?entry ''ai_response_excerpt'' = Inr (JStr (excerpt 500 ai_response))"
    by (simp_all add: history_entry_def)
  have j1: "excerpt 200 job_description =
      (if 200 < length job_description then take 200 job_description @ ''...'' else job_description)"
    and r1: "excerpt 500 ai_response =
      (if 500 < length ai_response then take 500 ai_response @ ''...'' else ai_response)"
    by (auto simp: excerpt_def)
  have j2: "length (excerpt 200 job_description) \<le> 203"
    and r2: "length (excerpt 500 ai_response) \<le> 503"
    using length_excerpt [of 200 job_description] length_excerpt [of 500 ai_response] by simp_all
  have j3: "200 < length job_description \<longrightarrow> length (excerpt 200 job_description) = 203"
    by (simp add: excerpt_def)
  show ?thesis
    using run h jd resp j1 r1 j2 r2 j3 by blast
qed

theorem record_interaction_excerpts_witness:
  "\<exists>db_data' entry.
      record_interaction ''2026-11-04T12:00:00'' ''Ada'' ''ada@example.org'' ''Match score''
          (replicate 1000 CHR ''x'') ''MATCH SCORE: 75%'' fresh_disk
        = (Inr (), fresh_disk\<lparr>db_file := Stored db_data'\<rparr>)
    \<and> history_of db_data' = [entry]
    \<and> py_getitem entry ''job_description_excerpt'' = Inr (JStr (replicate 200 CHR ''x'' @ ''...''))
    \<and> py_getitem entry ''ai_response_excerpt'' = Inr (JStr ''MATCH SCORE: 75%'')"
proof -
  have h1: "load_db_data (db_file fresh_disk) = Inr empty_db"
    by (simp add: load_db_data_def fresh_disk_def empty_db_def)
  have h2: "well_formed_store empty_db"
    by (simp add: well_formed_store_def empty_db_def)
  have h3: "\<not> write_fails fresh_disk" by (simp add: fresh_disk_def)
  have e: "history_of empty_db = []" by (simp add: history_of_def empty_db_def)
  from record_interaction_excerpts [OF h1 h2 h3, of "''2026-11-04T12:00:00''" "''Ada''"
      "''ada@example.org''" "''Match score''" "replicate 1000 CHR ''x''" "''MATCH SCORE: 75%''"]
  show ?thesis unfolding e by auto
qed

subsection \<open>Pruning\<close>

lemma note_has_no_timestamp: "\<not> sublist ''timestamp'' ''note''"
  by code_simp

lemma example_ages:
  "example_now div microseconds_per_day = 101"
  "(example_now - 100 * microseconds_per_day) div microseconds_per_day = 1"
  by (simp_all add: example_now_def microseconds_per_day_def)

lemma entry_try_examples:
  "entry_try example_fromisoformat example_now 100 old_entry = Inr False"
  "entry_try example_fromisoformat example_now 100 recent_entry = Inr True"
  "entry_try example_fromisoformat example_now 100 (JStr ''note'') = Inr True"
  "entry_try example_fromisoformat example_now 100 (JNum 5) = Inl TypeError"
  by (simp_all add: entry_try_def old_entry_def recent_entry_def example_fromisoformat_def
      example_ages note_has_no_timestamp)

text \<open>
  C8, at an input where the code departs from it. The history holds the string
  \<open>"note"\<close>, a malformed entry that is no record, and a record that is 101 days old; the
  threshold is 100 days. \<open>clean_old_history\<close> prunes the old record, reports
  \<open>True\<close> and saves, but the string entry is retained: \<open>"timestamp" in "note"\<close> is a
  substring test that yields \<open>False\<close> without raising, so the entry takes the branch of
  a record without a timestamp and never reaches the \<open>TypeError\<close> handler that skips
  entries which are no dictionaries.
\<close>

theorem clean_old_history_keeps_text_entry:
  "clean_old_history example_fromisoformat example_now
       (store_with [JStr ''note'', old_entry]) 100 d
     = (Inr True, store_with [JStr ''note''], save_db_data (store_with [JStr ''note'']) d)"
  by (simp add: clean_old_history_def store_with_def entry_try_examples)

text \<open>
  The examples of the specification on the same clock: the record of 101 days is pruned and
  the one of 1 day retained; nothing is saved when no record is old; an entry that is a
  number is skipped by the \<open>TypeError\<close> handler.
\<close>

lemma clean_old_history_prunes_old_entry:
  "clean_old_history example_fromisoformat example_now
       (store_with [old_entry, recent_entry]) 100 d
     = (Inr True, store_with [recent_entry], save_db_data (store_with [recent_entry]) d)"
  by (simp add: clean_old_history_def store_with_def entry_try_examples)

lemma clean_old_history_nothing_old:
  "clean_old_history example_fromisoformat example_now (store_with [recent_entry]) 100 d
     = (Inr False, store_with [recent_entry], d)"
  by (simp add: clean_old_history_def store_with_def entry_try_examples)

lemma clean_old_history_skips_number:
  "clean_old_history example_fromisoformat example_now (store_with [JNum 5, old_entry]) 100 d
     = (Inr True, store_with [], save_db_data (store_with []) d)"
  by (simp add: clean_old_history_def store_with_def entry_try_examples)

section \<open>Properties of the document renderer\<close>

text \<open>
  C9, at the input where the code departs from it. When \<open>pdfkit.from_string\<close> raises,
  \<open>generate_pdf_from_markdown\<close> returns \<open>None\<close> and the temporary file that
  \<open>NamedTemporaryFile(delete=False)\<close> created is still there, empty: \<open>os.unlink\<close>
  (line 174) stands after the \<open>with\<close> block inside the \<open>try\<close> and is not reached.
\<close>

theorem generate_pdf_leaves_temp_file_on_failure:
  assumes "conversion tools = Inl e"
  shows "fst (generate_pdf_from_markdown tools files) = None
       \<and> snd (generate_pdf_from_markdown tools files) (tmp_name tools) = Some []"
  using assms by (simp add: generate_pdf_from_markdown_def WKHTMLTOPDF_PATH_def)

theorem generate_pdf_leaves_temp_file_on_failure_witness:
  "fst (generate_pdf_from_markdown tools_without_wkhtmltopdf Map.empty) = None
   \<and> snd (generate_pdf_from_markdown tools_without_wkhtmltopdf Map.empty)
        ''/tmp/tmpab12cd34.pdf'' = Some []"
proof -
  have h: "conversion tools_without_wkhtmltopdf = Inl ''No wkhtmltopdf executable found''"
    by (simp add: tools_without_wkhtmltopdf_def)
  have n: "tmp_name tools_without_wkhtmltopdf = ''/tmp/tmpab12cd34.pdf''"
    by (simp add: tools_without_wkhtmltopdf_def)
  show ?thesis
    using generate_pdf_leaves_temp_file_on_failure [OF h, of Map.empty] unfolding n .
qed

text \<open>On the path where the conversion succeeds the temporary file is removed.\<close>

lemma generate_pdf_removes_temp_file_on_success:
  assumes "conversion tools = Inr pdf"
  shows "generate_pdf_from_markdown tools files = (Some pdf, files(tmp_name tools := None))"
  using assms by (simp add: generate_pdf_from_markdown_def WKHTMLTOPDF_PATH_def)

end
